theory Spec2Isabelle
  imports Main "HOL-Library.Word"
begin

section \<open>Data of the application controller (src/src/app/index.ts)\<close>

type_synonym byte = "8 word"

text \<open>
  What an operation of \<open>App\<close> can throw. \<open>TypeError\<close> is what the JavaScript
  runtime throws at a property access on \<open>null\<close> (\<open>this.currentDocument.close()\<close>,
  \<open>this.currentDocument.editor\<close> with no current widget). \<open>CompileError d\<close> and
  \<open>AssembleError d\<close> are the exceptions of the external compiler and assembler,
  which no function of the source catches, carrying the collaborator's diagnostic.
  \<open>NoActiveDocument\<close> is the dedicated error of the specification's taxonomy; no
  function of the source raises it.
\<close>

datatype error = TypeError | CompileError string | AssembleError string | NoActiveDocument

text \<open>The argument of \<open>new Compiler({ player: true })\<close>.\<close>

record config =
  player :: bool

datatype blob_part = Bytes "byte list" | Text string

text \<open>\<open>new Blob(parts, { type: mime })\<close>.\<close>

datatype blob = Blob "blob_part list" string

text \<open>
  The calls the controller makes on its external collaborators, in the order they are
  made: the compiler (with the configuration of the instance called), the assembler,
  the jsSID player, file-saver's \<open>saveAs\<close>, \<open>console.log\<close> of the bench line
  (stage name and milliseconds of the template string) and \<open>close()\<close> of a document
  widget.
\<close>

datatype event =
    Compile "config option" string
  | Assemble string
  | Loadinitdata "byte list" nat
  | Playcont
  | Stop
  | SaveAs blob string
  | ConsoleLog string int
  | Close nat

text \<open>A placeholder widget: its title text, the classes added to it, \<open>title.closable\<close>.\<close>

record widget =
  title :: string
  classes :: "string list"
  closable :: bool

record menu_item =
  item_text :: string
  checked :: bool

text \<open>
  The state the controller works on. Document widgets are objects, named here by
  numbers: \<open>children\<close> are the tabs of \<open>panel.documentPanel\<close> in tab order,
  \<open>currentWidget\<close> its current tab (\<open>None\<close> for \<open>null\<close>), \<open>content\<close> the
  \<open>editor.content\<close> of every document object, \<open>fresh\<close> the next object to be
  allocated by \<open>new DocumentPanel()\<close>. \<open>sidePanel\<close> holds the widgets of
  \<open>panel.sidePanel\<close> from left to right. \<open>ticks\<close> counts the readings of
  \<open>Date.now()\<close> made so far and \<open>trace\<close> lists the collaborator calls made so far.
\<close>

record world =
  children :: "nat list"
  currentWidget :: "nat option"
  content :: "nat \<Rightarrow> string"
  fresh :: nat
  sidePanel :: "widget list"
  ticks :: nat
  trace :: "event list"

text \<open>
  The external collaborators, as functions: \<open>now n\<close> is the value of the \<open>n\<close>-th
  reading of \<open>Date.now()\<close> (any sequence of readings), \<open>compile cfg source\<close> is
  \<open>compile(source)\<close> of a \<open>Compiler\<close> built with \<open>cfg\<close> (\<open>None\<close> for
  \<open>new Compiler()\<close>), either the thrown diagnostic or the assembly text,
  \<open>assemble asm\<close> the diagnostic or the \<open>objectCode\<close> numbers, and
  \<open>nextCurrent tabs d\<close> the tab the toolkit makes current when the current tab
  \<open>d\<close> of \<open>tabs\<close> is closed.
\<close>

record collab =
  now :: "nat \<Rightarrow> int"
  compile :: "config option \<Rightarrow> string \<Rightarrow> string + string"
  assemble :: "string \<Rightarrow> string + int list"
  nextCurrent :: "nat list \<Rightarrow> nat \<Rightarrow> nat"

section \<open>Effects: state passing with exceptions\<close>

type_synonym 'a io = "world \<Rightarrow> (error + 'a) \<times> world"

definition andThen :: "'a io \<Rightarrow> ('a \<Rightarrow> 'b io) \<Rightarrow> 'b io" where
  "andThen m f w = (case m w of (Inl e, w') \<Rightarrow> (Inl e, w') | (Inr a, w') \<Rightarrow> f a w')"

definition call :: "event \<Rightarrow> world \<Rightarrow> world" where
  "call ev w = w\<lparr>trace := trace w @ [ev]\<rparr>"

text \<open>The collaborator calls an operation adds to the trace.\<close>

definition emitted :: "'a io \<Rightarrow> world \<Rightarrow> event list" where
  "emitted f w = drop (length (trace w)) (trace (snd (f w)))"

section \<open>Util.bench\<close>

definition Date_now :: "collab \<Rightarrow> world \<Rightarrow> int \<times> world" where
  "Date_now E w = (now E (ticks w), w\<lparr>ticks := Suc (ticks w)\<rparr>)"

text \<open>
  The closure \<open>timer\<close> of \<open>bench\<close> over its local variable \<open>time\<close>: given the
  action and the value of \<open>time\<close>, the returned number, the new value of \<open>time\<close>
  and the world after the clock reading.
\<close>

definition timer :: "collab \<Rightarrow> string \<Rightarrow> int \<Rightarrow> world \<Rightarrow> (int \<times> int) \<times> world" where
  "timer E action time w =
     (let (d, w') = Date_now E w in
      if time < 1 \<or> action = ''start'' then ((0, d), w')
      else if action = ''stop'' then ((d - time, 0), w')
      else ((d - time, time), w'))"

text \<open>
  \<open>bench(name, callback)\<close>: no \<open>try\<close> surrounds \<open>callback.apply(this)\<close>, so an
  exception of the callback leaves \<open>bench\<close> at once.
\<close>

definition bench :: "collab \<Rightarrow> string \<Rightarrow> 'a io \<Rightarrow> 'a io" where
  "bench E name callback w =
     (let time = 0;
          ((_, time), w1) = timer E ''start'' time w
      in case callback w1 of
           (Inl e, w2) \<Rightarrow> (Inl e, w2)
         | (Inr result, w2) \<Rightarrow>
             (let ((execTime, _), w3) = timer E ''stop'' time w2
              in (Inr result, call (ConsoleLog name execTime) w3)))"

section \<open>Collaborator calls\<close>

definition Compiler_compile :: "collab \<Rightarrow> config option \<Rightarrow> string \<Rightarrow> string io" where
  "Compiler_compile E cfg source w =
     (case compile E cfg source of
        Inl diag \<Rightarrow> (Inl (CompileError diag), call (Compile cfg source) w)
      | Inr asm \<Rightarrow> (Inr asm, call (Compile cfg source) w))"

definition Assembler_assemble :: "collab \<Rightarrow> string \<Rightarrow> int list io" where
  "Assembler_assemble E asm w =
     (case assemble E asm of
        Inl diag \<Rightarrow> (Inl (AssembleError diag), call (Assemble asm) w)
      | Inr objectCode \<Rightarrow> (Inr objectCode, call (Assemble asm) w))"

text \<open>\<open>Uint8Array.from\<close> on integral numbers: each is taken modulo 256.\<close>

definition Uint8Array_from :: "int list \<Rightarrow> byte list" where
  "Uint8Array_from objectCode = map word_of_int objectCode"

definition loadinitdata :: "byte list \<Rightarrow> nat \<Rightarrow> unit io" where
  "loadinitdata sidData addr w = (Inr (), call (Loadinitdata sidData addr) w)"

definition playcont :: "unit io" where
  "playcont w = (Inr (), call Playcont w)"

definition saveAs :: "blob \<Rightarrow> string \<Rightarrow> unit io" where
  "saveAs b name w = (Inr (), call (SaveAs b name) w)"

text \<open>\<open>this.currentDocument.editor.content\<close>, a \<open>TypeError\<close> on \<open>null\<close>.\<close>

definition editor_content :: "string io" where
  "editor_content w =
     (case currentWidget w of
        None \<Rightarrow> (Inl TypeError, w)
      | Some doc \<Rightarrow> (Inr (content w doc), w))"

section \<open>The operations of App\<close>

text \<open>
  \<open>this._compiler\<close> is built by \<open>new Compiler()\<close> in the constructor: the compiler
  of \<open>play\<close>, \<open>exportSID\<close> and \<open>exportASM\<close> has no configuration.
\<close>

definition play :: "collab \<Rightarrow> unit io" where
  "play E =
     andThen editor_content (\<lambda>source.
     andThen (bench E ''compile'' (Compiler_compile E None source)) (\<lambda>asm.
     andThen (bench E ''assemble'' (Assembler_assemble E asm)) (\<lambda>objectCode.
     andThen (loadinitdata (Uint8Array_from objectCode) 0) (\<lambda>_.
     playcont))))"

definition stop :: "unit io" where
  "stop w = (Inr (), call Stop w)"

definition exportSID :: "collab \<Rightarrow> unit io" where
  "exportSID E =
     andThen editor_content (\<lambda>source.
     andThen (bench E ''compile'' (Compiler_compile E None source)) (\<lambda>asm.
     andThen (bench E ''assemble'' (Assembler_assemble E asm)) (\<lambda>objectCode.
     saveAs (Blob [Bytes (Uint8Array_from objectCode)] ''application/octet-binary'')
       ''Untitled.sid'')))"

definition exportASM :: "collab \<Rightarrow> unit io" where
  "exportASM E =
     andThen editor_content (\<lambda>source.
     andThen (bench E ''compile'' (Compiler_compile E None source)) (\<lambda>asm.
     saveAs (Blob [Text asm] ''text/plain;charset=utf-8'') ''Untitled.asm''))"

definition exportPlayer :: "collab \<Rightarrow> unit io" where
  "exportPlayer E =
     andThen editor_content (\<lambda>source.
     andThen (bench E ''compile''
                (Compiler_compile E (Some \<lparr>player = True\<rparr>) source)) (\<lambda>asm.
     andThen (bench E ''assemble'' (Assembler_assemble E asm)) (\<lambda>objectCode.
     saveAs (Blob [Bytes (Uint8Array_from objectCode)] ''application/octet-binary'')
       ''Untitled.prg'')))"

text \<open>The four build operations, by name.\<close>

datatype target = Play | ExportSID | ExportASM | ExportPlayer

definition invoke :: "collab \<Rightarrow> target \<Rightarrow> unit io" where
  "invoke E t =
     (case t of
        Play \<Rightarrow> play E
      | ExportSID \<Rightarrow> exportSID E
      | ExportASM \<Rightarrow> exportASM E
      | ExportPlayer \<Rightarrow> exportPlayer E)"

section \<open>Documents\<close>

definition childCount :: "world \<Rightarrow> nat" where
  "childCount w = length (children w)"

text \<open>
  Modelled from the spec: \<open>close()\<close> of a document widget is code of the widget
  toolkit and of \<open>../document\<close>, which are not among the sources. The specification
  (4.1, 3) has it remove the document from the sequence and, when it was the active
  one, reassign the active reference to another member of the sequence, or to null if
  none remain; which member is the toolkit's choice \<open>nextCurrent\<close>. A widget that is
  not a tab of the panel has nothing to be removed from.
\<close>

definition Widget_close :: "collab \<Rightarrow> nat \<Rightarrow> world \<Rightarrow> world" where
  "Widget_close E d w =
     (let w' = call (Close d) w; rest = remove1 d (children w) in
      if d \<in> set (children w) then
        w'\<lparr>children := rest,
           currentWidget :=
             (if currentWidget w = Some d
              then (if rest = [] then None else Some (nextCurrent E (children w) d))
              else currentWidget w)\<rparr>
      else w')"

definition closeDocument :: "collab \<Rightarrow> unit io" where
  "closeDocument E w =
     (case currentWidget w of
        None \<Rightarrow> (Inl TypeError, w)
      | Some d \<Rightarrow> (Inr (), Widget_close E d w))"

text \<open>
  The loop of \<open>closeAllDocuments\<close>; it has no bound of its own, so not returning is
  the value \<open>None\<close>.
\<close>

partial_function (option) closeAllDocuments :: "collab \<Rightarrow> world \<Rightarrow> ((error + unit) \<times> world) option" where
  "closeAllDocuments E w =
     (if childCount w > 0 then
        (case currentWidget w of
           None \<Rightarrow> Some (Inl TypeError, w)
         | Some d \<Rightarrow> closeAllDocuments E (Widget_close E d w))
      else Some (Inr (), w))"

text \<open>\<open>Private.newFile\<close>: a new document object becomes the last tab and the current one.\<close>

definition addChild :: "nat \<Rightarrow> world \<Rightarrow> world" where
  "addChild doc w = w\<lparr>children := children w @ [doc]\<rparr>"

definition newFile :: "world \<Rightarrow> world" where
  "newFile w =
     (let doc = fresh w;
          w1 = addChild doc (w\<lparr>fresh := Suc doc\<rparr>)
      in w1\<lparr>currentWidget := Some doc\<rparr>)"

section \<open>Panels\<close>

definition createPlaceholder :: "string \<Rightarrow> string \<Rightarrow> widget" where
  "createPlaceholder t color = \<lparr>title = t, classes = [''content'', color], closable = True\<rparr>"

definition insertRight :: "widget \<Rightarrow> world \<Rightarrow> world" where
  "insertRight p w = w\<lparr>sidePanel := sidePanel w @ [p]\<rparr>"

definition viewPianoRoll :: "menu_item \<Rightarrow> world \<Rightarrow> world" where
  "viewPianoRoll item w = insertRight (createPlaceholder ''Piano Roll'' ''green'') w"

definition viewInstrumentEditor :: "menu_item \<Rightarrow> world \<Rightarrow> world" where
  "viewInstrumentEditor item w = insertRight (createPlaceholder ''Instrument Editor'' ''red'') w"

definition viewOscilloscope :: "menu_item \<Rightarrow> world \<Rightarrow> world" where
  "viewOscilloscope item w = insertRight (createPlaceholder ''Oscilloscope'' ''blue'') w"

text \<open>The number of widgets of the side panel that carry a given title.\<close>

definition instances :: "string \<Rightarrow> world \<Rightarrow> nat" where
  "instances t w = length (filter (\<lambda>p. title p = t) (sidePanel w))"

section \<open>Reading a trace\<close>

fun is_Assemble :: "event \<Rightarrow> bool" where
  "is_Assemble (Assemble asm) = True"
| "is_Assemble ev = False"

text \<open>The number of invocations of the assembler in a trace.\<close>

definition assembler_calls :: "event list \<Rightarrow> nat" where
  "assembler_calls tr = length (filter is_Assemble tr)"

text \<open>An artifact leaves the controller by the player's load or by \<open>saveAs\<close>.\<close>

fun is_artifact :: "event \<Rightarrow> bool" where
  "is_artifact (Loadinitdata b a) = True"
| "is_artifact (SaveAs b n) = True"
| "is_artifact ev = False"

fun compile_of :: "event \<Rightarrow> (config option \<times> string) list" where
  "compile_of (Compile cfg source) = [(cfg, source)]"
| "compile_of ev = []"

text \<open>The runs of the compile stage in a trace: configuration and source text.\<close>

definition compiles :: "event list \<Rightarrow> (config option \<times> string) list" where
  "compiles tr = concat (map compile_of tr)"

text \<open>The player flag of a compiler's configuration; a compiler built with none has none.\<close>

definition player_flag :: "config option \<Rightarrow> bool" where
  "player_flag cfg = (case cfg of None \<Rightarrow> False | Some c \<Rightarrow> player c)"

fun report_of :: "event \<Rightarrow> (string \<times> int) list" where
  "report_of (ConsoleLog name ms) = [(name, ms)]"
| "report_of ev = []"

text \<open>The durations reported on the console: stage name and milliseconds.\<close>

definition reports :: "event list \<Rightarrow> (string \<times> int) list" where
  "reports tr = concat (map report_of tr)"

fun save_of :: "event \<Rightarrow> (blob \<times> string) list" where
  "save_of (SaveAs b name) = [(b, name)]"
| "save_of ev = []"

definition saves :: "event list \<Rightarrow> (blob \<times> string) list" where
  "saves tr = concat (map save_of tr)"

fun loaded_of :: "event \<Rightarrow> byte list list" where
  "loaded_of (Loadinitdata b a) = [b]"
| "loaded_of ev = []"

text \<open>The byte sequences loaded into the player.\<close>

definition loaded :: "event list \<Rightarrow> byte list list" where
  "loaded tr = concat (map loaded_of tr)"

fun saved_bytes_of :: "string \<Rightarrow> event \<Rightarrow> byte list list" where
  "saved_bytes_of name (SaveAs (Blob [Bytes b] mime) n) = (if n = name then [b] else [])"
| "saved_bytes_of name ev = []"

text \<open>The byte sequences saved under a file name.\<close>

definition saved_bytes :: "string \<Rightarrow> event list \<Rightarrow> byte list list" where
  "saved_bytes name tr = concat (map (saved_bytes_of name) tr)"

fun is_player_call :: "event \<Rightarrow> bool" where
  "is_player_call (Loadinitdata b a) = True"
| "is_player_call Playcont = True"
| "is_player_call Stop = True"
| "is_player_call ev = False"

text \<open>
  A trace in which every playback is stopped before the next one starts: \<open>playcont\<close>
  is never called while a run started by an earlier \<open>playcont\<close> has not been ended by
  \<open>stop\<close>. The flag says whether a run is active at the start of the trace.
\<close>

fun overlap_free :: "bool \<Rightarrow> event list \<Rightarrow> bool" where
  "overlap_free active [] = True"
| "overlap_free active (Playcont # tr) = (\<not> active \<and> overlap_free True tr)"
| "overlap_free active (Stop # tr) = overlap_free False tr"
| "overlap_free active (ev # tr) = overlap_free active tr"

text \<open>The source text of the active document, if there is one.\<close>

definition activeSource :: "world \<Rightarrow> string option" where
  "activeSource w = map_option (content w) (currentWidget w)"

text \<open>
  The invariant of the document session (specification, 3): no document is open twice,
  every open document has been allocated, and the active reference is null exactly
  when no document is open and otherwise points to an open document.
\<close>

definition wf_session :: "world \<Rightarrow> bool" where
  "wf_session w =
     (distinct (children w) \<and>
      (\<forall>d \<in> set (children w). d < fresh w) \<and>
      (case currentWidget w of None \<Rightarrow> children w = [] | Some d \<Rightarrow> d \<in> set (children w)))"

text \<open>
  The build of play and export-sid in the words of the specification (4.2): compile,
  then assemble, then the object code as bytes; the first failing stage is the outcome.
\<close>

definition build :: "collab \<Rightarrow> string option \<Rightarrow> error + byte list" where
  "build E src =
     (case src of
        None \<Rightarrow> Inl TypeError
      | Some source \<Rightarrow>
          (case compile E None source of
             Inl diag \<Rightarrow> Inl (CompileError diag)
           | Inr asm \<Rightarrow>
               (case assemble E asm of
                  Inl diag \<Rightarrow> Inl (AssembleError diag)
                | Inr objectCode \<Rightarrow> Inr (Uint8Array_from objectCode))))"

section \<open>Example collaborators and sessions\<close>

text \<open>
  A clock that advances 7 ms per reading, a compiler that rejects the source \<open>bad\<close>,
  an assembler whose object code has numbers outside of a byte, and a toolkit that makes
  the first remaining tab current.
\<close>

definition exampleCollab :: collab where
  "exampleCollab =
     \<lparr>now = (\<lambda>n. 1000 + 7 * int n),
      compile = (\<lambda>cfg source.
        if source = ''bad'' then Inl ''syntax error''
        else Inr ((if player_flag cfg then ''; player '' else ''; tune '') @ source)),
      assemble = (\<lambda>asm. Inr [int (length asm), 258, - 1]),
      nextCurrent = (\<lambda>tabs d. hd (remove1 d tabs))\<rparr>"

definition emptySession :: world where
  "emptySession =
     \<lparr>children = [], currentWidget = None, content = (\<lambda>doc. []), fresh = 0,
      sidePanel = [], ticks = 0, trace = []\<rparr>"

text \<open>One open document holding the given source text.\<close>

definition session :: "string \<Rightarrow> world" where
  "session source = (newFile emptySession)\<lparr>content := (\<lambda>doc. source)\<rparr>"

definition threeDocs :: world where
  "threeDocs = newFile (newFile (newFile emptySession))"

text \<open>The session after a first successful play: playback is active.\<close>

definition playing :: world where
  "playing = snd (play exampleCollab (session ''abc''))"

section \<open>Basic facts\<close>

lemmas io_defs = andThen_def bench_def timer_def Date_now_def call_def
  Compiler_compile_def Assembler_assemble_def loadinitdata_def playcont_def saveAs_def
  editor_content_def emitted_def

lemmas op_defs = invoke_def play_def exportSID_def exportASM_def exportPlayer_def

lemmas obs_defs = assembler_calls_def compiles_def reports_def saves_def loaded_def
  saved_bytes_def

lemmas ex_defs = exampleCollab_def emptySession_def session_def newFile_def addChild_def
  player_flag_def

text \<open>An exception of the callback leaves \<open>bench\<close> with the world as the callback left it.\<close>

lemma bench_throws:
  "callback (snd (Date_now E w)) = (Inl e, w') \<Longrightarrow> bench E name callback w = (Inl e, w')"
  by (simp add: bench_def timer_def Date_now_def)

text \<open>
  A callback that returns: one more clock reading, then the console line. The duration
  is 0 when the start reading was below 1, as \<open>timer\<close> then takes the timer as not
  started.
\<close>

lemma bench_returns:
  "callback (snd (Date_now E w)) = (Inr r, w') \<Longrightarrow>
   bench E name callback w =
     (Inr r,
      call (ConsoleLog name (if now E (ticks w) < 1 then 0 else now E (ticks w') - now E (ticks w)))
        (snd (Date_now E w')))"
  by (simp add: bench_def timer_def Date_now_def)

section \<open>The build pipeline\<close>

text \<open>
  C1. When the compiler fails on the source of the active document, every build
  operation (play, export-sid, export-player, and export-assembly as well) ends with the
  compiler's failure carrying its diagnostic; the assembler is not invoked, nothing is
  loaded into the player or saved, and the only collaborator call made is the one
  compile.
\<close>

theorem compile_failure_aborts:
  assumes "currentWidget w = Some doc"
      and "compile E (if t = ExportPlayer then Some \<lparr>player = True\<rparr> else None) (content w doc) = Inl diag"
  shows "fst (invoke E t w) = Inl (CompileError diag) \<and>
         assembler_calls (emitted (invoke E t) w) = 0 \<and>
         filter is_artifact (emitted (invoke E t) w) = [] \<and>
         emitted (invoke E t) w =
           [Compile (if t = ExportPlayer then Some \<lparr>player = True\<rparr> else None) (content w doc)]"
  using assms
  by (cases t) (simp_all add: op_defs io_defs obs_defs)

theorem compile_failure_aborts_witness:
  "currentWidget (session ''bad'') = Some 0 \<and>
   compile exampleCollab (if ExportPlayer = ExportPlayer then Some \<lparr>player = True\<rparr> else None)
     (content (session ''bad'') 0) = Inl ''syntax error'' \<and>
   fst (invoke exampleCollab ExportPlayer (session ''bad'')) = Inl (CompileError ''syntax error'') \<and>
   assembler_calls (emitted (invoke exampleCollab ExportPlayer) (session ''bad'')) = 0 \<and>
   filter is_artifact (emitted (invoke exampleCollab ExportPlayer) (session ''bad'')) = [] \<and>
   emitted (invoke exampleCollab ExportPlayer) (session ''bad'') =
     [Compile (Some \<lparr>player = True\<rparr>) ''bad'']"
proof -
  have h1: "currentWidget (session ''bad'') = Some 0"
    by (simp add: ex_defs)
  have h2: "compile exampleCollab (if ExportPlayer = ExportPlayer then Some \<lparr>player = True\<rparr> else None)
     (content (session ''bad'') 0) = Inl ''syntax error''"
    by (simp add: ex_defs)
  have h3: "content (session ''bad'') 0 = ''bad''"
    by (simp add: ex_defs)
  from compile_failure_aborts [OF h1 h2] h1 h2 h3 show ?thesis
    by (simp add: obs_defs)
qed

text \<open>
  C2. Export-assembly never invokes the assembler, whatever the source, and what it
  saves is exactly the text the compile stage returned, as \<open>Untitled.asm\<close>; it saves
  nothing when there is no active document or the compiler fails.
\<close>

theorem exportASM_skips_assembler:
  "assembler_calls (emitted (exportASM E) w) = 0 \<and>
   saves (emitted (exportASM E) w) =
     (case activeSource w of
        None \<Rightarrow> []
      | Some source \<Rightarrow>
          (case compile E None source of
             Inl diag \<Rightarrow> []
           | Inr asm \<Rightarrow> [(Blob [Text asm] ''text/plain;charset=utf-8'', ''Untitled.asm'')]))"
  by (simp add: op_defs io_defs obs_defs activeSource_def split: option.splits sum.splits)

theorem exportASM_skips_assembler_witness:
  "assembler_calls (emitted (exportASM exampleCollab) (session ''abc'')) = 0 \<and>
   saves (emitted (exportASM exampleCollab) (session ''abc'')) =
     [(Blob [Text ''; tune abc''] ''text/plain;charset=utf-8'', ''Untitled.asm'')]"
  using exportASM_skips_assembler [of exampleCollab "session ''abc''"]
  by (simp add: ex_defs activeSource_def)

text \<open>
  C6. With an active document, every build operation runs the compile stage exactly
  once, on the source of the active document; the compiler called carries the
  configuration \<open>player: true\<close> if and only if the operation is export-player, and
  play, export-sid and export-assembly call the compiler built without configuration.
\<close>

theorem player_flag_only_exportPlayer:
  assumes "currentWidget w = Some doc"
  shows "compiles (emitted (invoke E t) w) =
           [(if t = ExportPlayer then Some \<lparr>player = True\<rparr> else None, content w doc)] \<and>
         map (\<lambda>c. player_flag (fst c)) (compiles (emitted (invoke E t) w)) = [t = ExportPlayer]"
  using assms
  by (cases t)
     (simp_all add: op_defs io_defs obs_defs player_flag_def split: sum.splits)

theorem player_flag_only_exportPlayer_witness:
  "currentWidget (session ''abc'') = Some 0 \<and>
   compiles (emitted (invoke exampleCollab ExportPlayer) (session ''abc'')) =
     [(Some \<lparr>player = True\<rparr>, ''abc'')] \<and>
   map (\<lambda>c. player_flag (fst c))
     (compiles (emitted (invoke exampleCollab ExportPlayer) (session ''abc''))) = [True]"
proof -
  have h1: "currentWidget (session ''abc'') = Some 0"
    by (simp add: ex_defs)
  have h2: "content (session ''abc'') 0 = ''abc''"
    by (simp add: ex_defs)
  from player_flag_only_exportPlayer [OF h1, of exampleCollab ExportPlayer] h1 h2 show ?thesis
    by (simp add: player_flag_def)
qed

text \<open>What play loads and what export-sid saves, by the build of the specification.\<close>

lemma play_build:
  "loaded (emitted (play E) w) = (case build E (activeSource w) of Inl e \<Rightarrow> [] | Inr b \<Rightarrow> [b]) \<and>
   fst (play E w) = map_sum id (\<lambda>b. ()) (build E (activeSource w))"
  by (simp add: build_def op_defs io_defs obs_defs activeSource_def split: option.splits sum.splits)

lemma exportSID_build:
  "saved_bytes ''Untitled.sid'' (emitted (exportSID E) w) =
     (case build E (activeSource w) of Inl e \<Rightarrow> [] | Inr b \<Rightarrow> [b]) \<and>
   fst (exportSID E w) = map_sum id (\<lambda>b. ()) (build E (activeSource w))"
  by (simp add: build_def op_defs io_defs obs_defs activeSource_def split: option.splits sum.splits)

text \<open>
  C10. With the compiler and the assembler as functions, play and export-sid on the
  same active source text have the same outcome, and the byte sequences play loads into
  the player are the byte sequences export-sid saves as \<open>Untitled.sid\<close>, whatever
  else differs between the two states (clock, earlier calls, other documents).
\<close>

theorem play_exportSID_same_bytes:
  assumes "activeSource w1 = activeSource w2"
  shows "loaded (emitted (play E) w1) = saved_bytes ''Untitled.sid'' (emitted (exportSID E) w2) \<and>
         fst (play E w1) = fst (exportSID E w2)"
  using assms by (simp add: play_build exportSID_build)

lemma playing_eval:
  "playing =
     \<lparr>children = [0], currentWidget = Some 0, content = (\<lambda>doc. ''abc''), fresh = 1,
      sidePanel = [], ticks = 4,
      trace =
        [Compile None ''abc'', ConsoleLog ''compile'' 7,
         Assemble ''; tune abc'', ConsoleLog ''assemble'' 7,
         Loadinitdata [10, 2, 255] 0, Playcont]\<rparr>"
  by (simp add: playing_def op_defs io_defs ex_defs Uint8Array_from_def)

theorem play_exportSID_same_bytes_witness:
  "activeSource (session ''abc'') = activeSource playing \<and>
   loaded (emitted (play exampleCollab) (session ''abc'')) = [[10, 2, 255]] \<and>
   saved_bytes ''Untitled.sid'' (emitted (exportSID exampleCollab) playing) = [[10, 2, 255]] \<and>
   fst (play exampleCollab (session ''abc'')) = fst (exportSID exampleCollab playing)"
proof -
  have h: "activeSource (session ''abc'') = activeSource playing"
    by (simp add: activeSource_def playing_eval ex_defs)
  have l: "loaded (emitted (play exampleCollab) (session ''abc'')) = [[10, 2, 255]]"
    by (simp add: op_defs io_defs obs_defs ex_defs Uint8Array_from_def)
  from play_exportSID_same_bytes [OF h, of exampleCollab] h l show ?thesis
    by simp
qed

section \<open>Playback\<close>

text \<open>
  C5, as the code has it. \<open>play\<close> never calls the player's \<open>stop\<close>: on a source that
  compiles and assembles, whether or not playback is active, the calls it makes on the
  one player of the application are \<open>loadinitdata(bytes, 0)\<close> and then
  \<open>playcont()\<close>, so that the bytes loaded last are those of the latest play. As the
  claim states it (the previous run is stopped before the new one starts) it fails:
  a second play calls \<open>playcont\<close> with no \<open>stop\<close> since the first.
\<close>

theorem play_never_stops:
  assumes "currentWidget w = Some doc"
      and "compile E None (content w doc) = Inr asm"
      and "assemble E asm = Inr objectCode"
  shows "fst (play E w) = Inr () \<and>
         filter is_player_call (emitted (play E) w) =
           [Loadinitdata (Uint8Array_from objectCode) 0, Playcont]"
  using assms by (simp add: op_defs io_defs)

theorem play_never_stops_witness:
  "currentWidget playing = Some 0 \<and>
   compile exampleCollab None (content playing 0) = Inr ''; tune abc'' \<and>
   assemble exampleCollab ''; tune abc'' = Inr [10, 258, - 1] \<and>
   fst (play exampleCollab playing) = Inr () \<and>
   filter is_player_call (emitted (play exampleCollab) playing) =
     [Loadinitdata [10, 2, 255] 0, Playcont]"
proof -
  have h1: "currentWidget playing = Some 0"
    by (simp add: playing_eval)
  have h2: "compile exampleCollab None (content playing 0) = Inr ''; tune abc''"
    by (simp add: playing_eval exampleCollab_def player_flag_def)
  have h3: "assemble exampleCollab ''; tune abc'' = Inr [10, 258, - 1]"
    by (simp add: exampleCollab_def)
  have h4: "Uint8Array_from [10, 258, - 1] = [10, 2, 255]"
    by (simp add: Uint8Array_from_def)
  from play_never_stops [OF h1 h2 h3] h1 h2 h3 show ?thesis
    by (simp add: h4)
qed

theorem play_overlap_counterexample:
  "\<not> overlap_free False (trace (snd (play exampleCollab playing)))"
  by (simp add: playing_eval op_defs io_defs exampleCollab_def player_flag_def)

section \<open>The document session\<close>

lemma wf_emptySession: "wf_session emptySession"
  by (simp add: wf_session_def emptySession_def)

lemma wf_newFile: "wf_session w \<Longrightarrow> wf_session (newFile w)"
  by (auto simp: wf_session_def newFile_def addChild_def Let_def less_Suc_eq)

text \<open>Closing the current document of a well-formed session removes exactly that tab.\<close>

lemma Widget_close_current:
  assumes "wf_session w" and "currentWidget w = Some d"
      and "\<forall>tabs c. remove1 c tabs \<noteq> [] \<longrightarrow> nextCurrent E tabs c \<in> set (remove1 c tabs)"
  shows "wf_session (Widget_close E d w) \<and>
         children (Widget_close E d w) = remove1 d (children w) \<and>
         trace (Widget_close E d w) = trace w @ [Close d] \<and>
         d \<in> set (children w)"
proof -
  from assms(1,2) have dist: "distinct (children w)" and mem: "d \<in> set (children w)"
    and bound: "\<forall>c \<in> set (children w). c < fresh w"
    by (simp_all add: wf_session_def)
  have pick: "nextCurrent E (children w) d \<in> set (remove1 d (children w))"
    if "remove1 d (children w) \<noteq> []"
    using assms(3) that by blast
  have wf: "wf_session (Widget_close E d w)"
    using dist mem bound assms(2) pick
    by (auto simp: wf_session_def Widget_close_def call_def Let_def)
  show ?thesis
    using wf mem by (simp add: Widget_close_def call_def Let_def)
qed

lemma wf_closeDocument:
  assumes "wf_session w"
      and "\<forall>tabs c. remove1 c tabs \<noteq> [] \<longrightarrow> nextCurrent E tabs c \<in> set (remove1 c tabs)"
  shows "wf_session (snd (closeDocument E w))"
proof (cases "currentWidget w")
  case None
  with assms(1) show ?thesis by (simp add: closeDocument_def)
next
  case (Some d)
  with Widget_close_current [OF assms(1) Some assms(2)] show ?thesis
    by (simp add: closeDocument_def)
qed

text \<open>The loop unfolds once per open document.\<close>

lemma closeAll_steps:
  assumes "\<forall>tabs c. remove1 c tabs \<noteq> [] \<longrightarrow> nextCurrent E tabs c \<in> set (remove1 c tabs)"
  shows "length (children w) = n \<Longrightarrow> wf_session w \<Longrightarrow>
         \<exists>w' cs. closeAllDocuments E w = Some (Inr (), w') \<and>
                 trace w' = trace w @ map Close cs \<and>
                 length cs = n \<and> distinct cs \<and> set cs = set (children w) \<and>
                 children w' = [] \<and> currentWidget w' = None"
proof (induction n arbitrary: w)
  case 0
  then have "children w = []" by simp
  moreover from this 0 have "currentWidget w = None"
    by (auto simp: wf_session_def split: option.splits)
  ultimately show ?case
    by (subst closeAllDocuments.simps) (simp add: childCount_def)
next
  case (Suc n)
  then have ne: "children w \<noteq> []" by auto
  with Suc.prems obtain d where cur: "currentWidget w = Some d"
    by (cases "currentWidget w") (auto simp: wf_session_def)
  let ?w1 = "Widget_close E d w"
  from Widget_close_current [OF Suc.prems(2) cur assms]
  have wf1: "wf_session ?w1" and ch1: "children ?w1 = remove1 d (children w)"
    and tr1: "trace ?w1 = trace w @ [Close d]" and mem: "d \<in> set (children w)"
    by simp_all
  from Suc.prems(2) have dist: "distinct (children w)"
    by (simp add: wf_session_def)
  from ch1 mem Suc.prems(1) have len1: "length (children ?w1) = n"
    by (simp add: length_remove1)
  from Suc.IH [OF len1 wf1] obtain w' cs where
    run: "closeAllDocuments E ?w1 = Some (Inr (), w')" and
    tr: "trace w' = trace ?w1 @ map Close cs" and
    cs: "length cs = n" "distinct cs" "set cs = set (children ?w1)" and
    fin: "children w' = []" "currentWidget w' = None"
    by blast
  have step: "closeAllDocuments E w = closeAllDocuments E ?w1"
    using ne cur by (subst closeAllDocuments.simps) (simp add: childCount_def)
  have "trace w' = trace w @ map Close (d # cs)"
    using tr tr1 by simp
  moreover have "distinct (d # cs)"
    using cs ch1 dist by simp
  moreover have "set (d # cs) = set (children w)"
    using cs ch1 dist mem by (auto simp: set_remove1_eq)
  moreover have "length (d # cs) = Suc n"
    using cs by simp
  moreover have "closeAllDocuments E w = Some (Inr (), w')"
    using step run by simp
  ultimately show ?case
    using fin by - (rule exI [of _ w'], rule exI [of _ "d # cs"], simp)
qed

text \<open>
  C3. On a well-formed session with N open documents, with a toolkit that makes a
  remaining tab current when the current one is closed, \<open>closeAllDocuments\<close> returns
  normally; the calls it makes are exactly N calls of \<open>close()\<close>, on pairwise
  different documents that are exactly the N open ones (none is closed twice), and it
  leaves no open document and no current one.
\<close>

theorem closeAllDocuments_terminates:
  assumes "wf_session w"
      and "\<forall>tabs c. remove1 c tabs \<noteq> [] \<longrightarrow> nextCurrent E tabs c \<in> set (remove1 c tabs)"
  shows "\<exists>w' cs. closeAllDocuments E w = Some (Inr (), w') \<and>
                 trace w' = trace w @ map Close cs \<and>
                 length cs = childCount w \<and> distinct cs \<and> set cs = set (children w) \<and>
                 children w' = [] \<and> currentWidget w' = None"
  using closeAll_steps [OF assms(2) refl assms(1)]
  by (simp add: childCount_def)

theorem closeAllDocuments_terminates_witness:
  "wf_session threeDocs \<and>
   (\<exists>w' cs. closeAllDocuments exampleCollab threeDocs = Some (Inr (), w') \<and>
            trace w' = map Close cs \<and> length cs = 3 \<and> distinct cs \<and> set cs = {0, 1, 2} \<and>
            children w' = [] \<and> currentWidget w' = None)"
proof -
  have h1: "wf_session threeDocs"
    by (simp add: wf_session_def threeDocs_def ex_defs)
  have h2: "\<forall>tabs c. remove1 c tabs \<noteq> [] \<longrightarrow>
              nextCurrent exampleCollab tabs c \<in> set (remove1 c tabs)"
    by (simp add: exampleCollab_def)
  have h3: "children threeDocs = [0, 1, 2]" "trace threeDocs = []" "childCount threeDocs = 3"
    by (simp_all add: threeDocs_def ex_defs childCount_def)
  from closeAllDocuments_terminates [OF h1 h2] h1 show ?thesis
    by (simp add: h3)
qed

text \<open>The run of the loop on three documents, the last one current.\<close>

lemma closeAll_threeDocs:
  "closeAllDocuments exampleCollab threeDocs =
     Some (Inr (),
       \<lparr>children = [], currentWidget = None, content = (\<lambda>doc. []), fresh = 3,
        sidePanel = [], ticks = 0, trace = [Close 2, Close 0, Close 1]\<rparr>)"
  by (simp add: closeAllDocuments.simps threeDocs_def ex_defs childCount_def Widget_close_def
      call_def)

text \<open>
  C4, as the code has it. With no current document, \<open>closeDocument\<close> and every build
  operation (play and the three exports) fail with the runtime's \<open>TypeError\<close> of the
  access on \<open>null\<close>, before any collaborator is called and with the state unchanged.
  The error is not a dedicated \<open>NoActiveDocument\<close>: the source has no such error.
\<close>

theorem no_document_TypeError:
  assumes "currentWidget w = None"
  shows "closeDocument E w = (Inl TypeError, w) \<and> invoke E t w = (Inl TypeError, w)"
  using assms
  by (cases t) (simp_all add: closeDocument_def op_defs andThen_def editor_content_def)

theorem no_document_TypeError_witness:
  "currentWidget emptySession = None \<and>
   closeDocument exampleCollab emptySession = (Inl TypeError, emptySession) \<and>
   invoke exampleCollab Play emptySession = (Inl TypeError, emptySession)"
proof -
  have h: "currentWidget emptySession = None"
    by (simp add: emptySession_def)
  from no_document_TypeError [OF h, of exampleCollab Play] h show ?thesis
    by simp
qed

theorem NoActiveDocument_counterexample:
  "children emptySession = [] \<and>
   fst (closeDocument exampleCollab emptySession) \<noteq> Inl NoActiveDocument \<and>
   fst (play exampleCollab emptySession) \<noteq> Inl NoActiveDocument \<and>
   fst (exportSID exampleCollab emptySession) \<noteq> Inl NoActiveDocument"
  by (simp add: closeDocument_def op_defs andThen_def editor_content_def emptySession_def)

section \<open>The panel handlers\<close>

text \<open>
  C7. The handlers documented as toggles only insert: invoked twice on a session with
  an empty side panel, each leaves two placeholders of its panel, and the state after
  two invocations is not the original one.
\<close>

theorem view_twice_two_instances:
  "instances ''Piano Roll'' (viewPianoRoll item (viewPianoRoll item emptySession)) = 2 \<and>
   instances ''Instrument Editor''
     (viewInstrumentEditor item (viewInstrumentEditor item emptySession)) = 2 \<and>
   instances ''Oscilloscope'' (viewOscilloscope item (viewOscilloscope item emptySession)) = 2 \<and>
   viewOscilloscope item (viewOscilloscope item emptySession) \<noteq> emptySession"
  by (simp add: instances_def viewPianoRoll_def viewInstrumentEditor_def viewOscilloscope_def
      insertRight_def createPlaceholder_def emptySession_def)

section \<open>The timing wrapper\<close>

text \<open>
  C8, as the code has it. When the callback throws, \<open>bench\<close> propagates the failure
  unchanged and returns no result, and it reports nothing: the state is exactly the one
  the callback left, with no stop reading of the clock and no console line. As the claim
  states it (the duration is recorded and reported first) it fails.
\<close>

theorem bench_failure_unreported:
  assumes "callback (snd (Date_now E w)) = (Inl e, w')"
  shows "bench E name callback w = (Inl e, w')"
  using assms by (rule bench_throws)

theorem bench_failure_unreported_witness:
  "Compiler_compile exampleCollab None ''bad'' (snd (Date_now exampleCollab emptySession)) =
     (Inl (CompileError ''syntax error''),
      call (Compile None ''bad'') (snd (Date_now exampleCollab emptySession))) \<and>
   bench exampleCollab ''compile'' (Compiler_compile exampleCollab None ''bad'') emptySession =
     (Inl (CompileError ''syntax error''),
      call (Compile None ''bad'') (snd (Date_now exampleCollab emptySession)))"
proof -
  have h: "Compiler_compile exampleCollab None ''bad'' (snd (Date_now exampleCollab emptySession)) =
     (Inl (CompileError ''syntax error''),
      call (Compile None ''bad'') (snd (Date_now exampleCollab emptySession)))"
    by (simp add: Compiler_compile_def exampleCollab_def)
  from bench_failure_unreported
    [where callback = "Compiler_compile exampleCollab None ''bad''" and E = exampleCollab
       and w = emptySession, OF h] h
  show ?thesis
    by simp
qed

theorem bench_report_counterexample:
  "fst (bench exampleCollab ''compile'' (Compiler_compile exampleCollab None ''bad'') emptySession) =
     Inl (CompileError ''syntax error'') \<and>
   reports (trace (snd (bench exampleCollab ''compile''
     (Compiler_compile exampleCollab None ''bad'') emptySession))) = []"
  by (simp add: io_defs obs_defs exampleCollab_def emptySession_def)

text \<open>
  C9. Nested calls keep their own timers. When the callback of an outer \<open>bench\<close> is
  itself a \<open>bench\<close> whose callback returns \<open>r\<close>, both calls return \<open>r\<close>; the
  inner line is reported first, with the duration between the inner call's own two
  clock readings, and the outer line after it, with the duration between the outer
  call's own two readings (the first and the last of the four), each as \<open>timer\<close>
  computes it for a call that is not nested.
\<close>

theorem bench_nested_independent:
  assumes "callback (snd (Date_now E (snd (Date_now E w)))) = (Inr r, w')"
  shows "bench E outer (bench E inner callback) w =
           (Inr r,
            w'\<lparr>ticks := ticks w' + 2,
               trace := trace w' @
                 [ConsoleLog inner
                    (if now E (Suc (ticks w)) < 1 then 0
                     else now E (ticks w') - now E (Suc (ticks w))),
                  ConsoleLog outer
                    (if now E (ticks w) < 1 then 0
                     else now E (Suc (ticks w')) - now E (ticks w))]\<rparr>)"
proof -
  let ?w1 = "snd (Date_now E w)"
  have inner: "bench E inner callback ?w1 =
     (Inr r,
      call (ConsoleLog inner (if now E (ticks ?w1) < 1 then 0 else now E (ticks w') - now E (ticks ?w1)))
        (snd (Date_now E w')))"
    using assms by (rule bench_returns)
  show ?thesis
    by (simp add: bench_returns [of "bench E inner callback" E w, OF inner] call_def Date_now_def)
qed

theorem bench_nested_independent_witness:
  "Compiler_compile exampleCollab None ''abc''
     (snd (Date_now exampleCollab (snd (Date_now exampleCollab emptySession)))) =
     (Inr ''; tune abc'', emptySession\<lparr>ticks := 2, trace := [Compile None ''abc'']\<rparr>) \<and>
   bench exampleCollab ''outer''
     (bench exampleCollab ''inner'' (Compiler_compile exampleCollab None ''abc'')) emptySession =
     (Inr ''; tune abc'',
      emptySession\<lparr>ticks := 4,
        trace := [Compile None ''abc'', ConsoleLog ''inner'' 7, ConsoleLog ''outer'' 21]\<rparr>)"
proof -
  have h: "Compiler_compile exampleCollab None ''abc''
     (snd (Date_now exampleCollab (snd (Date_now exampleCollab emptySession)))) =
     (Inr ''; tune abc'', emptySession\<lparr>ticks := 2, trace := [Compile None ''abc'']\<rparr>)"
    by (simp add: Compiler_compile_def Date_now_def call_def ex_defs)
  from bench_nested_independent
    [where callback = "Compiler_compile exampleCollab None ''abc''" and E = exampleCollab
       and w = emptySession, OF h, of "''outer''" "''inner''"] h
  show ?thesis
    by (simp add: exampleCollab_def emptySession_def)
qed

end
